theory Spec2Isabelle
  imports Complex_Main
begin

section \<open>Python values\<close>

text \<open>
  A Python \<open>str\<close> is a sequence of Unicode code points. The program's texts are Cyrillic,
  so a string is modelled as the list of its code points; \<open>asc\<close> embeds an ASCII literal.
\<close>

type_synonym ustring = "nat list"

definition asc :: "string \<Rightarrow> ustring" where
  "asc s = map of_char s"

text \<open>
  What \<open>response.json()\<close> can return: \<open>None\<close>, a \<open>bool\<close>, an \<open>int\<close>, a \<open>float\<close>, a
  \<open>str\<close>, a \<open>list\<close> or a \<open>dict\<close> with string keys. A finite float is the rational it
  denotes; the decoder also accepts the infinities and NaN. A dict is the list of its
  items in insertion order, read with \<open>map_of\<close>.
\<close>

datatype pyfloat = Finite rat | Infinite bool | NaN

datatype json =
    JNull
  | JBool bool
  | JInt int
  | JFloat pyfloat
  | JStr ustring
  | JList "json list"
  | JDict "(ustring \<times> json) list"

text \<open>Truth value testing, as \<open>if homework:\<close> and \<open>any([...])\<close> apply it.\<close>

fun truthy :: "json \<Rightarrow> bool" where
  "truthy JNull = False"
| "truthy (JBool b) = b"
| "truthy (JInt i) = (i \<noteq> 0)"
| "truthy (JFloat f) = (f \<noteq> Finite 0)"
| "truthy (JStr s) = (s \<noteq> [])"
| "truthy (JList xs) = (xs \<noteq> [])"
| "truthy (JDict d) = (d \<noteq> [])"

text \<open>A list or a dict has no hash: testing it for membership in a dict raises \<open>TypeError\<close>.\<close>

fun hashable :: "json \<Rightarrow> bool" where
  "hashable (JList xs) = False"
| "hashable (JDict d) = False"
| "hashable v = True"

text \<open>\<open>str()\<close> of an \<open>int\<close>: its decimal digits, with a minus sign when negative.\<close>

fun dec_nat :: "nat \<Rightarrow> ustring" where
  "dec_nat n = (if n < 10 then [0x30 + n] else dec_nat (n div 10) @ [0x30 + n mod 10])"

declare dec_nat.simps [simp del]

definition str_int :: "int \<Rightarrow> ustring" where
  "str_int i = (if i < 0 then 0x2D # dec_nat (nat (- i)) else dec_nat (nat i))"

text \<open>
  \<open>int(round(timestamp))\<close>: \<open>round\<close> of a float gives the nearest integer, the even one of
  the two when the value lies half way. A timestamp is the rational its float denotes.
\<close>

definition py_round :: "rat \<Rightarrow> int" where
  "py_round x =
     (let f = \<lfloor>x\<rfloor>; d = x - of_int f
      in if d < 1 / 2 then f else if 1 / 2 < d then f + 1 else if even f then f else f + 1)"

section \<open>Exceptions, interpreter texts and the trace of effects\<close>

text \<open>
  The exception classes the program raises, names or catches. A subclass is identified with the
  class an \<open>except\<close> clause names (\<open>telegram.TelegramError\<close>,
  \<open>requests.exceptions.RequestException\<close>); \<open>OtherError\<close> stands for any class of
  \<open>Exception\<close> that no clause but \<open>except Exception\<close> catches. An exception carries its
  argument.
\<close>

datatype exn_class =
    Exception
  | TypeError
  | KeyError
  | SystemError
  | AttributeError
  | RequestException
  | JSONDecodeError
  | TelegramError
  | OtherError

datatype exn = Exn (exn_class: exn_class) (exn_arg: ustring)

text \<open>
  Texts that the Python interpreter produces and the source does not spell out: \<open>str()\<close> of
  a float, list or dict, \<open>repr()\<close> of a string (what \<open>str()\<close> of a \<open>KeyError\<close> shows), and
  the messages of the \<open>AttributeError\<close> of \<open>v.get\<close> on a value without that method, of
  the \<open>TypeError\<close> of an unhashable key, and of the \<open>TypeError\<close> of a constructor called
  with too few arguments. They are parameters of the model.
\<close>

record interp =
  py_str :: "json \<Rightarrow> ustring"
  py_repr :: "ustring \<Rightarrow> ustring"
  no_attribute :: "json \<Rightarrow> ustring"
  unhashable :: "json \<Rightarrow> ustring"
  missing_args :: ustring

text \<open>\<open>str(error)\<close>, as the f-strings \<open>{error}\<close> render an exception.\<close>

definition str_exn :: "interp \<Rightarrow> exn \<Rightarrow> ustring" where
  "str_exn rt e = (if exn_class e = KeyError then py_repr rt (exn_arg e) else exn_arg e)"

text \<open>\<open>str(v)\<close>, as the f-string \<open>{homework_name}\<close> renders a value.\<close>

definition str_value :: "interp \<Rightarrow> json \<Rightarrow> ustring" where
  "str_value rt v =
     (case v of
        JStr s \<Rightarrow> s
      | JInt i \<Rightarrow> str_int i
      | JBool b \<Rightarrow> (if b then asc ''True'' else asc ''False'')
      | JNull \<Rightarrow> asc ''None''
      | _ \<Rightarrow> py_str rt v)"

text \<open>
  The effects of the program, in order: a line given to the logger, the GET request with
  its \<open>from_date\<close>, a call of \<open>bot.send_message\<close> with its text, and \<open>time.sleep\<close>.
\<close>

datatype level = DEBUG | ERROR | CRITICAL

datatype event =
    Log level ustring
  | HttpGet int
  | BotSend ustring
  | Sleep nat

text \<open>A call into a library either returns or raises; the world decides which.\<close>

datatype 'a outcome = Returns 'a | Raises exn

text \<open>
  A computation with effects: the events it produced, and the exception it raised
  (\<open>Inl\<close>) or the value it returned (\<open>Inr\<close>).
\<close>

type_synonym 'a io = "event list \<times> (exn + 'a)"

section \<open>Constants of the module\<close>

definition RETRY_PERIOD :: nat where
  "RETRY_PERIOD = 600"

definition verdict_approved :: ustring where
  \<comment> \<open>the literal of line 23, 48 code points\<close>
  "verdict_approved =
     [0x420, 0x430, 0x431, 0x43E, 0x442, 0x430, 0x20, 0x43F, 0x440, 0x43E, 0x432,
      0x435, 0x440, 0x435, 0x43D, 0x430, 0x3A, 0x20, 0x440, 0x435, 0x432, 0x44C, 0x44E,
      0x435, 0x440, 0x443, 0x20, 0x432, 0x441, 0x451, 0x20, 0x43F, 0x43E, 0x43D, 0x440,
      0x430, 0x432, 0x438, 0x43B, 0x43E, 0x441, 0x44C, 0x2E, 0x20, 0x423, 0x440, 0x430,
      0x21]"

definition verdict_reviewing :: ustring where
  \<comment> \<open>the literal of line 24, 35 code points\<close>
  "verdict_reviewing =
     [0x420, 0x430, 0x431, 0x43E, 0x442, 0x430, 0x20, 0x432, 0x437, 0x44F, 0x442,
      0x430, 0x20, 0x43D, 0x430, 0x20, 0x43F, 0x440, 0x43E, 0x432, 0x435, 0x440, 0x43A,
      0x443, 0x20, 0x440, 0x435, 0x432, 0x44C, 0x44E, 0x435, 0x440, 0x43E, 0x43C, 0x2E]"

definition verdict_rejected :: ustring where
  \<comment> \<open>the literal of line 25, 44 code points\<close>
  "verdict_rejected =
     [0x420, 0x430, 0x431, 0x43E, 0x442, 0x430, 0x20, 0x43F, 0x440, 0x43E, 0x432,
      0x435, 0x440, 0x435, 0x43D, 0x430, 0x3A, 0x20, 0x443, 0x20, 0x440, 0x435, 0x432,
      0x44C, 0x44E, 0x435, 0x440, 0x430, 0x20, 0x435, 0x441, 0x442, 0x44C, 0x20, 0x437,
      0x430, 0x43C, 0x435, 0x447, 0x430, 0x43D, 0x438, 0x44F, 0x2E]"

definition txt_tokens_missing :: ustring where
  \<comment> \<open>the literal of line 54, 31 code points\<close>
  "txt_tokens_missing =
     [0x41E, 0x442, 0x441, 0x443, 0x442, 0x432, 0x443, 0x435, 0x442, 0x20, 0x43F,
      0x435, 0x440, 0x435, 0x43C, 0x435, 0x43D, 0x43D, 0x430, 0x44F, 0x20, 0x43E,
      0x43A, 0x440, 0x443, 0x436, 0x435, 0x43D, 0x438, 0x44F, 0x2E]"

definition txt_bot_started :: ustring where
  \<comment> \<open>the literal of line 63, 21 code points\<close>
  "txt_bot_started =
     [0x54, 0x65, 0x6C, 0x65, 0x67, 0x72, 0x61, 0x6D, 0x20, 0x431, 0x43E, 0x442, 0x20,
      0x437, 0x430, 0x43F, 0x443, 0x449, 0x435, 0x43D, 0x2E]"

definition txt_send_failed :: ustring where
  \<comment> \<open>the literal of line 65, 33 code points\<close>
  "txt_send_failed =
     [0x41E, 0x448, 0x438, 0x431, 0x43A, 0x430, 0x20, 0x43E, 0x442, 0x43F, 0x440,
      0x430, 0x432, 0x43A, 0x438, 0x20, 0x441, 0x43E, 0x43E, 0x431, 0x449, 0x435,
      0x43D, 0x438, 0x44F, 0x20, 0x432, 0x20, 0x447, 0x430, 0x442, 0x3A, 0x20]"

definition txt_bad_status :: ustring where
  \<comment> \<open>the literal of line 78, 55 code points\<close>
  "txt_bad_status =
     [0x41E, 0x448, 0x438, 0x431, 0x43A, 0x430, 0x20, 0x43F, 0x440, 0x438, 0x20, 0x437,
      0x430, 0x43F, 0x440, 0x43E, 0x441, 0x435, 0x20, 0x43A, 0x20, 0x41, 0x50, 0x49,
      0x20, 0x22, 0x42F, 0x43D, 0x434, 0x435, 0x43A, 0x441, 0x2E, 0x414, 0x43E, 0x43C,
      0x430, 0x448, 0x43A, 0x430, 0x22, 0x2E, 0x20, 0x421, 0x442, 0x430, 0x442, 0x443,
      0x441, 0x20, 0x43A, 0x43E, 0x434, 0x3A, 0x20]"

definition txt_request_failed :: ustring where
  \<comment> \<open>the literal of line 86, 51 code points\<close>
  "txt_request_failed =
     [0x41E, 0x448, 0x438, 0x431, 0x43A, 0x430, 0x20, 0x43D, 0x430, 0x43F, 0x440,
      0x430, 0x432, 0x43B, 0x435, 0x43D, 0x438, 0x44F, 0x20, 0x437, 0x430, 0x43F,
      0x440, 0x43E, 0x441, 0x430, 0x20, 0x43A, 0x20, 0x41, 0x50, 0x49, 0x20, 0x22,
      0x42F, 0x43D, 0x434, 0x435, 0x43A, 0x441, 0x2E, 0x414, 0x43E, 0x43C, 0x430,
      0x448, 0x43A, 0x430, 0x22, 0x3A, 0x20]"

definition txt_decode_failed :: ustring where
  \<comment> \<open>the literal of line 94, 29 code points\<close>
  "txt_decode_failed =
     [0x41E, 0x448, 0x438, 0x431, 0x43A, 0x430, 0x20, 0x43F, 0x440, 0x438, 0x20, 0x43F,
      0x43E, 0x43B, 0x443, 0x447, 0x435, 0x43D, 0x438, 0x438, 0x20, 0x43E, 0x442,
      0x432, 0x435, 0x442, 0x430, 0x3A, 0x20]"

definition txt_not_dict :: ustring where
  \<comment> \<open>the literal of line 102, 38 code points\<close>
  "txt_not_dict =
     [0x41F, 0x43E, 0x43B, 0x443, 0x447, 0x435, 0x43D, 0x43D, 0x44B, 0x439, 0x20,
      0x43E, 0x442, 0x432, 0x435, 0x442, 0x20, 0x43D, 0x435, 0x20, 0x44F, 0x432, 0x43B,
      0x44F, 0x435, 0x442, 0x441, 0x44F, 0x20, 0x441, 0x43B, 0x43E, 0x432, 0x430,
      0x440, 0x435, 0x43C, 0x2E]"

definition txt_no_homeworks :: ustring where
  \<comment> \<open>the literal of line 104, 52 code points\<close>
  "txt_no_homeworks =
     [0x412, 0x20, 0x43E, 0x442, 0x432, 0x435, 0x442, 0x435, 0x20, 0x43E, 0x442, 0x441,
      0x443, 0x442, 0x441, 0x442, 0x432, 0x443, 0x435, 0x442, 0x20, 0x438, 0x43D,
      0x444, 0x43E, 0x440, 0x43C, 0x430, 0x446, 0x438, 0x44F, 0x20, 0x43E, 0x20, 0x434,
      0x43E, 0x43C, 0x430, 0x448, 0x43D, 0x438, 0x445, 0x20, 0x437, 0x430, 0x434,
      0x430, 0x43D, 0x438, 0x44F, 0x445, 0x2E]"

definition txt_no_current_date :: ustring where
  \<comment> \<open>the literal of line 106, 47 code points\<close>
  "txt_no_current_date =
     [0x412, 0x20, 0x43E, 0x442, 0x432, 0x435, 0x442, 0x435, 0x20, 0x43E, 0x442, 0x441,
      0x443, 0x442, 0x441, 0x442, 0x432, 0x443, 0x435, 0x442, 0x20, 0x438, 0x43D,
      0x444, 0x43E, 0x440, 0x43C, 0x430, 0x446, 0x438, 0x44F, 0x20, 0x43E, 0x20, 0x442,
      0x435, 0x43A, 0x443, 0x449, 0x435, 0x439, 0x20, 0x434, 0x430, 0x442, 0x435, 0x2E]"

definition txt_not_list :: ustring where
  \<comment> \<open>the literal of line 109, 45 code points\<close>
  "txt_not_list =
     [0x417, 0x43D, 0x430, 0x447, 0x435, 0x43D, 0x438, 0x435, 0x20, 0x43A, 0x43B,
      0x44E, 0x447, 0x430, 0x20, 0x68, 0x6F, 0x6D, 0x65, 0x77, 0x6F, 0x72, 0x6B, 0x73,
      0x20, 0x43D, 0x435, 0x20, 0x44F, 0x432, 0x43B, 0x44F, 0x435, 0x442, 0x441, 0x44F,
      0x20, 0x441, 0x43F, 0x438, 0x441, 0x43A, 0x43E, 0x43C, 0x2E]"

definition txt_no_name :: ustring where
  \<comment> \<open>the literal of line 119, 33 code points\<close>
  "txt_no_name =
     [0x41A, 0x43B, 0x44E, 0x447, 0x20, 0x22, 0x68, 0x6F, 0x6D, 0x65, 0x77, 0x6F, 0x72,
      0x6B, 0x5F, 0x6E, 0x61, 0x6D, 0x65, 0x22, 0x20, 0x43E, 0x442, 0x441, 0x443,
      0x442, 0x441, 0x442, 0x432, 0x443, 0x435, 0x442, 0x2E]"

definition txt_no_status :: ustring where
  \<comment> \<open>the literal of line 121, 26 code points\<close>
  "txt_no_status =
     [0x41A, 0x43B, 0x44E, 0x447, 0x20, 0x22, 0x73, 0x74, 0x61, 0x74, 0x75, 0x73, 0x22,
      0x20, 0x43E, 0x442, 0x441, 0x443, 0x442, 0x441, 0x442, 0x432, 0x443, 0x435,
      0x442, 0x2E]"

definition txt_unknown_status :: ustring where
  \<comment> \<open>the literal of line 124, 18 code points\<close>
  "txt_unknown_status =
     [0x41D, 0x435, 0x438, 0x437, 0x432, 0x435, 0x441, 0x442, 0x43D, 0x44B, 0x439,
      0x20, 0x441, 0x442, 0x430, 0x442, 0x443, 0x441]"

definition txt_changed :: ustring where
  \<comment> \<open>the literal of line 126, 34 code points\<close>
  "txt_changed =
     [0x418, 0x437, 0x43C, 0x435, 0x43D, 0x438, 0x43B, 0x441, 0x44F, 0x20, 0x441,
      0x442, 0x430, 0x442, 0x443, 0x441, 0x20, 0x43F, 0x440, 0x43E, 0x432, 0x435,
      0x440, 0x43A, 0x438, 0x20, 0x440, 0x430, 0x431, 0x43E, 0x442, 0x44B, 0x20, 0x22]"

definition txt_unchanged :: ustring where
  \<comment> \<open>the literal of line 144, 34 code points\<close>
  "txt_unchanged =
     [0x421, 0x442, 0x430, 0x442, 0x443, 0x441, 0x20, 0x43F, 0x440, 0x43E, 0x432,
      0x435, 0x440, 0x43A, 0x438, 0x20, 0x440, 0x430, 0x431, 0x43E, 0x442, 0x44B, 0x20,
      0x43D, 0x435, 0x20, 0x438, 0x437, 0x43C, 0x435, 0x43D, 0x451, 0x43D, 0x2E]"

definition txt_failure :: ustring where
  \<comment> \<open>the literal of line 147, 25 code points\<close>
  "txt_failure =
     [0x421, 0x431, 0x43E, 0x439, 0x20, 0x432, 0x20, 0x440, 0x430, 0x431, 0x43E, 0x442,
      0x435, 0x20, 0x43F, 0x440, 0x43E, 0x433, 0x440, 0x430, 0x43C, 0x43C, 0x44B, 0x3A,
      0x20]"

definition txt_quote_dot :: ustring where
  \<comment> \<open>the literal \<open>". \<close> that closes the name in line 126\<close>
  "txt_quote_dot = [0x22, 0x2E, 0x20]"

definition HOMEWORK_VERDICTS :: "(ustring \<times> ustring) list" where
  "HOMEWORK_VERDICTS =
     [(asc ''approved'', verdict_approved),
      (asc ''reviewing'', verdict_reviewing),
      (asc ''rejected'', verdict_rejected)]"

section \<open>The validator and the interpreter\<close>

definition check_response :: "json \<Rightarrow> exn + json" where
  "check_response response =
     (case response of
        JDict d \<Rightarrow>
          (case map_of d (asc ''homeworks'') of
             None \<Rightarrow> Inl (Exn KeyError txt_no_homeworks)
           | Some homeworks \<Rightarrow>
               if map_of d (asc ''current_date'') = None
               then Inl (Exn KeyError txt_no_current_date)
               else (case homeworks of
                       JList hs \<Rightarrow> (case hs of [] \<Rightarrow> Inr JNull | h # _ \<Rightarrow> Inr h)
                     | _ \<Rightarrow> Inl (Exn TypeError txt_not_list)))
      | _ \<Rightarrow> Inl (Exn TypeError txt_not_dict))"

text \<open>
  \<open>HOMEWORK_VERDICTS.get(homework_status)\<close> for a hashable status: only a string can equal
  one of the keys.
\<close>

definition verdict_of :: "json \<Rightarrow> ustring option" where
  "verdict_of homework_status =
     (case homework_status of JStr s \<Rightarrow> map_of HOMEWORK_VERDICTS s | _ \<Rightarrow> None)"

definition parse_status :: "interp \<Rightarrow> json \<Rightarrow> exn + ustring" where
  "parse_status rt homework =
     (case homework of
        JDict d \<Rightarrow>
          (let homework_name =
                 (case map_of d (asc ''homework_name'') of None \<Rightarrow> JNull | Some v \<Rightarrow> v)
           in if homework_name = JNull then Inl (Exn KeyError txt_no_name)
              else (case map_of d (asc ''status'') of
                      None \<Rightarrow> Inl (Exn KeyError txt_no_status)
                    | Some homework_status \<Rightarrow>
                        if \<not> hashable homework_status
                        then Inl (Exn TypeError (unhashable rt homework_status))
                        else (case verdict_of homework_status of
                                None \<Rightarrow> Inl (Exn SystemError txt_unknown_status)
                              | Some verdict \<Rightarrow>
                                  Inr (txt_changed @ str_value rt homework_name
                                       @ txt_quote_dot @ verdict))))
      | _ \<Rightarrow> Inl (Exn AttributeError (no_attribute rt homework)))"

section \<open>The environment and the startup check\<close>

text \<open>
  The three module constants read with \<open>os.getenv\<close>: \<open>None\<close> when the variable is not
  set, its value (possibly the empty string) when it is.
\<close>

record environ =
  PRACTICUM_TOKEN :: "ustring option"
  TELEGRAM_TOKEN :: "ustring option"
  TELEGRAM_CHAT_ID :: "ustring option"

definition getenv :: "ustring option \<Rightarrow> json" where
  "getenv var = (case var of None \<Rightarrow> JNull | Some s \<Rightarrow> JStr s)"

definition check_tokens :: "environ \<Rightarrow> event list \<times> bool" where
  "check_tokens env =
     (if \<not> list_ex truthy
              [getenv (PRACTICUM_TOKEN env), getenv (TELEGRAM_TOKEN env),
               getenv (TELEGRAM_CHAT_ID env)]
      then ([Log CRITICAL txt_tokens_missing], False)
      else ([], True))"

section \<open>The notifier and the API client\<close>

text \<open>
  \<open>reply\<close> is what \<open>bot.send_message\<close> does when called. Only a
  \<open>telegram.TelegramError\<close> is caught; any other exception leaves the function.
\<close>

definition send_message :: "interp \<Rightarrow> unit outcome \<Rightarrow> ustring \<Rightarrow> unit io" where
  "send_message rt reply message =
     (case reply of
        Returns _ \<Rightarrow> ([BotSend message, Log DEBUG txt_bot_started], Inr ())
      | Raises error \<Rightarrow>
          if exn_class error = TelegramError
          then ([BotSend message, Log ERROR (txt_send_failed @ str_exn rt error @ [0x2E])],
                Inr ())
          else ([BotSend message], Inl error))"

text \<open>
  An HTTP response: its status code, and what \<open>.json()\<close> does with its body: it raises a
  \<open>JSONDecodeError\<close> (\<open>Inl\<close>, with the text of that error) or returns the decoded value.
\<close>

record response =
  status_code :: int
  decoded :: "ustring + json"

text \<open>
  \<open>reply\<close> is what \<open>requests.get\<close> does when called. The \<open>Exception\<close> raised for a status
  other than 200 is not a \<open>RequestException\<close> and passes the first \<open>except\<close> clause;
  \<open>raise_for_status()\<close> has nothing to raise at status 200. In the second \<open>except\<close>
  clause \<open>JSONDecodeError(error_message)\<close> is a constructor call with one argument where
  the class requires three (\<open>msg\<close>, \<open>doc\<close>, \<open>pos\<close>): the call itself raises \<open>TypeError\<close>,
  and that is the exception leaving the function.
\<close>

definition get_api_answer :: "interp \<Rightarrow> response outcome \<Rightarrow> rat \<Rightarrow> json io" where
  "get_api_answer rt reply timestamp =
     (let from_date = py_round timestamp
      in case reply of
           Raises error \<Rightarrow>
             if exn_class error = RequestException
             then (let error_message = txt_request_failed @ str_exn rt error @ [0x2E]
                   in ([HttpGet from_date, Log ERROR error_message],
                       Inl (Exn Exception error_message)))
             else ([HttpGet from_date], Inl error)
         | Returns homework_status \<Rightarrow>
             if status_code homework_status \<noteq> 200
             then (let error_message = txt_bad_status @ str_int (status_code homework_status)
                   in ([HttpGet from_date, Log ERROR error_message],
                       Inl (Exn Exception error_message)))
             else (case decoded homework_status of
                     Inr body \<Rightarrow> ([HttpGet from_date], Inr body)
                   | Inl response_error \<Rightarrow>
                       ([HttpGet from_date, Log ERROR (txt_decode_failed @ response_error)],
                        Inl (Exn TypeError (missing_args rt)))))"

section \<open>The poll loop\<close>

text \<open>
  What the world does during one cycle: the reply to the GET request, the reply to the
  \<open>bot.send_message\<close> of the \<open>try\<close> block and to the one of the \<open>except\<close> block (each
  used only if that call is made), and the value of \<open>time.time()\<close>.
\<close>

record world =
  fetch :: "response outcome"
  notify :: "unit outcome"
  report :: "unit outcome"
  clock :: rat

text \<open>The \<open>try\<close> block: it returns the new timestamp, or raises.\<close>

definition try_block :: "interp \<Rightarrow> world \<Rightarrow> rat \<Rightarrow> rat io" where
  "try_block rt w timestamp =
     (case get_api_answer rt (fetch w) timestamp of
        (ev1, Inl error) \<Rightarrow> (ev1, Inl error)
      | (ev1, Inr response) \<Rightarrow>
          (case check_response response of
             Inl error \<Rightarrow> (ev1, Inl error)
           | Inr homework \<Rightarrow>
               if truthy homework
               then (case parse_status rt homework of
                       Inl error \<Rightarrow> (ev1, Inl error)
                     | Inr message \<Rightarrow>
                         (case send_message rt (notify w) message of
                            (ev2, Inl error) \<Rightarrow> (ev1 @ ev2, Inl error)
                          | (ev2, Inr _) \<Rightarrow> (ev1 @ ev2, Inr (clock w))))
               else (ev1 @ [Log DEBUG txt_unchanged], Inr (clock w))))"

text \<open>
  One pass of the \<open>while\<close> body: the \<open>try\<close> block, the \<open>except Exception\<close> block when the
  \<open>try\<close> block raised, and the \<open>finally\<close> block in every case. \<open>cursor\<close> is the value of
  \<open>timestamp\<close> afterwards; \<open>escaped\<close> is the exception that leaves the statement, which
  only the \<open>send_message\<close> of the \<open>except\<close> block can raise.
\<close>

record pass =
  events :: "event list"
  cursor :: rat
  escaped :: "exn option"

definition cycle :: "interp \<Rightarrow> world \<Rightarrow> rat \<Rightarrow> pass" where
  "cycle rt w timestamp =
     (case try_block rt w timestamp of
        (ev, Inr timestamp') \<Rightarrow>
          \<lparr>events = ev @ [Sleep RETRY_PERIOD], cursor = timestamp', escaped = None\<rparr>
      | (ev, Inl error) \<Rightarrow>
          (let message = txt_failure @ str_exn rt error
           in case send_message rt (report w) message of
                (ev', r) \<Rightarrow>
                  \<lparr>events = ev @ [Log ERROR message] @ ev' @ [Sleep RETRY_PERIOD],
                   cursor = timestamp,
                   escaped = (case r of Inl e \<Rightarrow> Some e | Inr _ \<Rightarrow> None)\<rparr>))"

text \<open>
  \<open>while True\<close>, run for as many cycles as the list describes worlds. The loop ends
  early only when an exception escapes a cycle.
\<close>

fun main_loop :: "interp \<Rightarrow> world list \<Rightarrow> rat \<Rightarrow> event list \<times> exn option" where
  "main_loop rt [] timestamp = ([], None)"
| "main_loop rt (w # ws) timestamp =
     (let p = cycle rt w timestamp
      in case escaped p of
           Some e \<Rightarrow> (events p, Some e)
         | None \<Rightarrow>
             (case main_loop rt ws (cursor p) of (ev, r) \<Rightarrow> (events p @ ev, r)))"

text \<open>
  \<open>main\<close>. \<open>Bot\<close> is the constructor \<open>telegram.Bot\<close> of the library, a parameter of the
  model: given the value of \<open>TELEGRAM_TOKEN\<close> it returns a bot or raises (the library
  rejects a missing or malformed token). The call in line 133 is outside every \<open>try\<close>,
  so an exception of the constructor leaves \<open>main\<close>. \<open>greeting\<close> is the reply to the
  first \<open>send_message\<close>, \<open>now\<close> the value of the first \<open>time.time()\<close>. \<open>Exited\<close> is the
  \<open>exit()\<close> after a failed check, \<open>Crashed\<close> an exception leaving \<open>main\<close>, \<open>Running\<close> the
  loop still going when the described cycles are over.
\<close>

datatype ending = Exited | Crashed exn | Running

definition main ::
  "interp \<Rightarrow> (ustring option \<Rightarrow> unit outcome) \<Rightarrow> environ \<Rightarrow> unit outcome \<Rightarrow> rat \<Rightarrow> world list
     \<Rightarrow> event list \<times> ending"
  where
  "main rt Bot env greeting now ws =
     (case check_tokens env of
        (ev0, False) \<Rightarrow> (ev0, Exited)
      | (ev0, True) \<Rightarrow>
          (case Bot (TELEGRAM_TOKEN env) of
             Raises e \<Rightarrow> (ev0, Crashed e)
           | Returns _ \<Rightarrow>
               (case send_message rt greeting txt_bot_started of
                  (ev1, Inl e) \<Rightarrow> (ev0 @ ev1, Crashed e)
                | (ev1, Inr _) \<Rightarrow>
                    (case main_loop rt ws now of
                       (ev2, r) \<Rightarrow>
                         (ev0 @ ev1 @ ev2,
                          (case r of None \<Rightarrow> Running | Some e \<Rightarrow> Crashed e))))))"

section \<open>Sample inputs\<close>

text \<open>
  The theorems hold for every interpreter. Where a closed instance is evaluated, it is
  evaluated at this one, whose texts are empty and whose \<open>repr\<close> leaves a string as it is.
\<close>

definition sample_interp :: interp where
  "sample_interp =
     \<lparr>py_str = (\<lambda>v. []), py_repr = (\<lambda>s. s), no_attribute = (\<lambda>v. []),
      unhashable = (\<lambda>v. []), missing_args = []\<rparr>"

text \<open>
  A sample of the constructor \<open>telegram.Bot\<close>. As the library does, it raises a
  \<open>TypeError\<close> for a missing token and an \<open>InvalidToken\<close>, which is a
  \<open>TelegramError\<close>, for a token without a colon. For any other token it returns a bot.
\<close>

definition sample_Bot :: "ustring option \<Rightarrow> unit outcome" where
  "sample_Bot token =
     (case token of
        None \<Rightarrow> Raises (Exn TypeError [])
      | Some t \<Rightarrow>
          if 0x3A \<in> set t then Returns () else Raises (Exn TelegramError (asc ''Invalid token'')))"

text \<open>
  \<open>answering body\<close>: a cycle in which the API answers 200 with \<open>body\<close>, every send is
  delivered and the clock shows 700. \<open>body_of hs\<close>: a well-formed body with the homeworks
  \<open>hs\<close>. \<open>refusing\<close>: a cycle in which the API answers 500.
\<close>

definition answering :: "json \<Rightarrow> world" where
  "answering body =
     \<lparr>fetch = Returns \<lparr>status_code = 200, decoded = Inr body\<rparr>,
      notify = Returns (), report = Returns (), clock = 700\<rparr>"

definition body_of :: "json list \<Rightarrow> json" where
  "body_of hs = JDict [(asc ''homeworks'', JList hs), (asc ''current_date'', JInt 100)]"

definition refusing :: world where
  "refusing =
     \<lparr>fetch = Returns \<lparr>status_code = 500, decoded = Inl []\<rparr>,
      notify = Returns (), report = Returns (), clock = 700\<rparr>"

lemmas run_simps =
  cycle_def try_block_def get_api_answer_def check_response_def send_message_def
  answering_def body_of_def refusing_def asc_def py_round_def Let_def RETRY_PERIOD_def

section \<open>Properties\<close>

subsection \<open>The shape of a cycle's trace\<close>

text \<open>
  Every cycle begins with its GET request, makes no other request, and ends with the
  sleep of the \<open>finally\<close> block.
\<close>

lemma get_api_answer_first:
  "\<exists>ev. fst (get_api_answer rt reply ts) = HttpGet (py_round ts) # ev \<and> (\<forall>n. HttpGet n \<notin> set ev)
        \<and> (\<forall>n. Sleep n \<notin> set ev)"
  by (auto simp: get_api_answer_def Let_def split: outcome.splits sum.splits)

lemma send_message_events:
  "send_message rt reply m = (ev, r) \<Longrightarrow> HttpGet n \<notin> set ev"
  by (auto simp: send_message_def split: outcome.splits if_splits)

lemma try_block_shape:
  "\<exists>ev. fst (try_block rt w ts) = HttpGet (py_round ts) # ev \<and> (\<forall>n. HttpGet n \<notin> set ev)"
  using get_api_answer_first [of rt "fetch w" ts]
  by (auto simp: try_block_def split: prod.splits sum.splits dest: send_message_events)

lemma cycle_shape:
  "\<exists>body. events (cycle rt w ts) = HttpGet (py_round ts) # body @ [Sleep 600]
        \<and> (\<forall>n. HttpGet n \<notin> set body)"
  using try_block_shape [of rt w ts]
  by (auto simp: cycle_def Let_def RETRY_PERIOD_def split: prod.splits sum.splits
      dest: send_message_events)

subsection \<open>C1: the cursor after a cycle\<close>

text \<open>
  C1, as the code has it. The cursor is reassigned to the current time in a cycle whose
  fetch and validation return and in which either no truthy homework was found or the
  interpretation and \<open>send_message\<close> return as well. In a cycle whose fetch, validation or
  interpretation raises, the assignment \<open>timestamp = time.time()\<close>, the last statement of
  the \<open>try\<close> block, is not reached: the cursor keeps its value, and whatever the next
  cycle meets, its request carries the same \<open>from_date\<close> again.
\<close>

theorem cursor_after_cycle:
  "(get_api_answer rt (fetch w) timestamp = (ev, Inr response)
      \<and> check_response response = Inr homework
      \<and> (if truthy homework
          then \<exists>message. parse_status rt homework = Inr message
                 \<and> snd (send_message rt (notify w) message) = Inr ()
          else True)
     \<longrightarrow> cursor (cycle rt w timestamp) = clock w)
   \<and> (snd (get_api_answer rt (fetch w) timestamp) = Inl e
       \<or> (get_api_answer rt (fetch w) timestamp = (ev, Inr response)
           \<and> (check_response response = Inl e
               \<or> (check_response response = Inr homework \<and> truthy homework
                   \<and> parse_status rt homework = Inl e)))
     \<longrightarrow> cursor (cycle rt w timestamp) = timestamp
         \<and> hd (events (cycle rt w' (cursor (cycle rt w timestamp))))
             = HttpGet (py_round timestamp))"
proof (intro conjI impI)
  assume "get_api_answer rt (fetch w) timestamp = (ev, Inr response)
      \<and> check_response response = Inr homework
      \<and> (if truthy homework
          then \<exists>message. parse_status rt homework = Inr message
                 \<and> snd (send_message rt (notify w) message) = Inr ()
          else True)"
  then show "cursor (cycle rt w timestamp) = clock w"
    by (auto simp: cycle_def try_block_def split: prod.splits sum.splits if_splits)
next
  assume "snd (get_api_answer rt (fetch w) timestamp) = Inl e
       \<or> (get_api_answer rt (fetch w) timestamp = (ev, Inr response)
           \<and> (check_response response = Inl e
               \<or> (check_response response = Inr homework \<and> truthy homework
                   \<and> parse_status rt homework = Inl e)))"
  then have kept: "cursor (cycle rt w timestamp) = timestamp"
    by (auto simp: cycle_def try_block_def Let_def split: prod.splits sum.splits)
  obtain body where
    "events (cycle rt w' timestamp) = HttpGet (py_round timestamp) # body @ [Sleep 600]"
    using cycle_shape by blast
  with kept show "hd (events (cycle rt w' (cursor (cycle rt w timestamp))))
             = HttpGet (py_round timestamp)" by simp
  from kept show "cursor (cycle rt w timestamp) = timestamp" .
qed

text \<open>
  The theorem at a cycle with an empty list of homeworks (the cursor moves from 100 to
  700) and at a cycle answered with status 500 (the cursor stays at 100).
\<close>

theorem cursor_after_cycle_witness:
  "cursor (cycle sample_interp (answering (body_of [])) 100) = 700
   \<and> cursor (cycle sample_interp refusing 100) = 100
   \<and> hd (events (cycle sample_interp refusing (cursor (cycle sample_interp refusing 100))))
       = HttpGet (py_round 100)"
proof -
  have a: "get_api_answer sample_interp (fetch (answering (body_of []))) 100
             = ([HttpGet 100], Inr (body_of []))
           \<and> check_response (body_of []) = Inr JNull
           \<and> (if truthy JNull
               then \<exists>message. parse_status sample_interp JNull = Inr message
                      \<and> snd (send_message sample_interp (notify (answering (body_of []))) message)
                          = Inr ()
               else True)"
    by (simp add: run_simps)
  have b: "snd (get_api_answer sample_interp (fetch refusing) 100)
             = Inl (Exn Exception (txt_bad_status @ str_int 500))"
    by (simp add: run_simps)
  have c: "clock (answering (body_of [])) = 700" "py_round 100 = 100"
    by (simp_all add: run_simps)
  from cursor_after_cycle [where rt = sample_interp and w = "answering (body_of [])"
      and timestamp = 100 and ev = "[HttpGet 100]" and response = "body_of []"
      and homework = JNull] a c
  have one: "cursor (cycle sample_interp (answering (body_of [])) 100) = 700" by simp
  from cursor_after_cycle [where rt = sample_interp and w = refusing and timestamp = 100
      and e = "Exn Exception (txt_bad_status @ str_int 500)" and w' = refusing
      and ev = "[]" and response = JNull and homework = JNull] b c
  have two: "cursor (cycle sample_interp refusing 100) = 100
   \<and> hd (events (cycle sample_interp refusing (cursor (cycle sample_interp refusing 100))))
       = HttpGet (py_round 100)" by blast
  from one two show ?thesis by blast
qed

text \<open>
  C1 as stated does not hold: in a cycle answered with status 500 at clock 700 the cursor
  stays at 100, and two such cycles in a row both request \<open>from_date = 100\<close>.
\<close>

theorem failed_cycle_counterexample:
  "cursor (cycle sample_interp refusing 100) = 100 \<and> clock refusing = 700
   \<and> [x \<leftarrow> fst (main_loop sample_interp [refusing, refusing] 100). x = HttpGet 100]
       = [HttpGet 100, HttpGet 100]"
  by (simp add: run_simps)

subsection \<open>C2: the startup check\<close>

text \<open>
  C2, as the code has it. \<open>any\<close> tests truth values, and the empty string is false: if
  each of the three secrets is absent or empty, \<open>main\<close> logs one critical line and exits,
  with no request and no send. If at least one is present and not empty, the check
  passes and \<open>main\<close> calls the constructor of the bot with \<open>TELEGRAM_TOKEN\<close>. If the
  constructor raises, that exception ends \<open>main\<close> with no request and no send. If it
  returns a bot, \<open>main\<close> sends its startup message, and when that send returns
  (delivered, or failed with a Telegram error), the loop starts and issues its first
  request.
\<close>

theorem startup_check:
  "(PRACTICUM_TOKEN env \<in> {None, Some []} \<and> TELEGRAM_TOKEN env \<in> {None, Some []}
      \<and> TELEGRAM_CHAT_ID env \<in> {None, Some []}
     \<longrightarrow> main rt Bot env greeting now ws = ([Log CRITICAL txt_tokens_missing], Exited))
   \<and> ((\<exists>s. s \<noteq> []
           \<and> (PRACTICUM_TOKEN env = Some s \<or> TELEGRAM_TOKEN env = Some s
               \<or> TELEGRAM_CHAT_ID env = Some s))
     \<longrightarrow> check_tokens env = ([], True)
         \<and> (\<forall>e. Bot (TELEGRAM_TOKEN env) = Raises e
               \<longrightarrow> main rt Bot env greeting now ws = ([], Crashed e))
         \<and> (Bot (TELEGRAM_TOKEN env) = Returns ()
               \<longrightarrow> (\<exists>rest. fst (main rt Bot env greeting now ws)
                             = BotSend txt_bot_started # rest)
                   \<and> (greeting = Returns ()
                       \<or> (\<exists>e. greeting = Raises e \<and> exn_class e = TelegramError)
                      \<longrightarrow> HttpGet (py_round now)
                            \<in> set (fst (main rt Bot env greeting now (w # ws))))))"
proof (intro conjI impI allI)
  assume "PRACTICUM_TOKEN env \<in> {None, Some []} \<and> TELEGRAM_TOKEN env \<in> {None, Some []}
      \<and> TELEGRAM_CHAT_ID env \<in> {None, Some []}"
  then show "main rt Bot env greeting now ws = ([Log CRITICAL txt_tokens_missing], Exited)"
    by (auto simp: main_def check_tokens_def getenv_def)
next
  assume "\<exists>s. s \<noteq> []
           \<and> (PRACTICUM_TOKEN env = Some s \<or> TELEGRAM_TOKEN env = Some s
               \<or> TELEGRAM_CHAT_ID env = Some s)"
  then show ok: "check_tokens env = ([], True)"
    by (auto simp: check_tokens_def getenv_def split: option.splits)
  {
    fix e
    assume "Bot (TELEGRAM_TOKEN env) = Raises e"
    with ok show "main rt Bot env greeting now ws = ([], Crashed e)"
      by (simp add: main_def)
  }
  assume made: "Bot (TELEGRAM_TOKEN env) = Returns ()"
  with ok show "\<exists>rest. fst (main rt Bot env greeting now ws) = BotSend txt_bot_started # rest"
    by (auto simp: main_def send_message_def split: outcome.splits prod.splits option.splits)
  assume "greeting = Returns () \<or> (\<exists>e. greeting = Raises e \<and> exn_class e = TelegramError)"
  then have sent: "snd (send_message rt greeting txt_bot_started) = Inr ()"
    by (auto simp: send_message_def)
  obtain body where
    "events (cycle rt w now) = HttpGet (py_round now) # body @ [Sleep 600]"
    using cycle_shape by blast
  then have "HttpGet (py_round now) \<in> set (fst (main_loop rt (w # ws) now))"
    by (simp add: Let_def split: option.splits prod.splits)
  with ok made sent
  show "HttpGet (py_round now) \<in> set (fst (main rt Bot env greeting now (w # ws)))"
    by (auto simp: main_def split: prod.splits sum.splits)
qed

text \<open>
  The theorem with all three secrets absent; with all three present and a bot token the
  constructor accepts; and with only the API token present, where the constructor
  raises for the missing bot token.
\<close>

theorem startup_check_witness:
  "main sample_interp sample_Bot
     \<lparr>PRACTICUM_TOKEN = None, TELEGRAM_TOKEN = None, TELEGRAM_CHAT_ID = None\<rparr>
     (Returns ()) 100 [answering (body_of [])]
   = ([Log CRITICAL txt_tokens_missing], Exited)
   \<and> check_tokens
       \<lparr>PRACTICUM_TOKEN = Some (asc ''p''), TELEGRAM_TOKEN = Some (asc ''123456:abc''),
        TELEGRAM_CHAT_ID = Some (asc ''42'')\<rparr>
     = ([], True)
   \<and> HttpGet 100
       \<in> set (fst (main sample_interp sample_Bot
            \<lparr>PRACTICUM_TOKEN = Some (asc ''p''), TELEGRAM_TOKEN = Some (asc ''123456:abc''),
             TELEGRAM_CHAT_ID = Some (asc ''42'')\<rparr>
            (Returns ()) 100 [answering (body_of [])]))
   \<and> main sample_interp sample_Bot
       \<lparr>PRACTICUM_TOKEN = Some (asc ''p''), TELEGRAM_TOKEN = None, TELEGRAM_CHAT_ID = None\<rparr>
       (Returns ()) 100 [answering (body_of [])]
     = ([], Crashed (Exn TypeError []))"
proof -
  have r: "py_round 100 = 100" by (simp add: py_round_def)
  have p: "asc ''p'' \<noteq> []" by (simp add: asc_def)
  have made: "sample_Bot (Some (asc ''123456:abc'')) = Returns ()"
    by (simp add: sample_Bot_def asc_def)
  have failed: "sample_Bot None = Raises (Exn TypeError [])"
    by (simp add: sample_Bot_def)
  from startup_check [where rt = sample_interp and Bot = sample_Bot
      and greeting = "Returns ()" and now = 100 and ws = "[answering (body_of [])]"
      and env = "\<lparr>PRACTICUM_TOKEN = None, TELEGRAM_TOKEN = None, TELEGRAM_CHAT_ID = None\<rparr>"]
  have one: "main sample_interp sample_Bot
     \<lparr>PRACTICUM_TOKEN = None, TELEGRAM_TOKEN = None, TELEGRAM_CHAT_ID = None\<rparr>
     (Returns ()) 100 [answering (body_of [])]
   = ([Log CRITICAL txt_tokens_missing], Exited)" by simp
  from startup_check [where rt = sample_interp and Bot = sample_Bot
      and greeting = "Returns ()" and now = 100 and ws = "[]" and w = "answering (body_of [])"
      and env = "\<lparr>PRACTICUM_TOKEN = Some (asc ''p''),
                  TELEGRAM_TOKEN = Some (asc ''123456:abc''),
                  TELEGRAM_CHAT_ID = Some (asc ''42'')\<rparr>"] p r made
  have two: "check_tokens
       \<lparr>PRACTICUM_TOKEN = Some (asc ''p''), TELEGRAM_TOKEN = Some (asc ''123456:abc''),
        TELEGRAM_CHAT_ID = Some (asc ''42'')\<rparr>
     = ([], True)
   \<and> HttpGet 100
       \<in> set (fst (main sample_interp sample_Bot
            \<lparr>PRACTICUM_TOKEN = Some (asc ''p''), TELEGRAM_TOKEN = Some (asc ''123456:abc''),
             TELEGRAM_CHAT_ID = Some (asc ''42'')\<rparr>
            (Returns ()) 100 [answering (body_of [])]))" by auto
  from startup_check [where rt = sample_interp and Bot = sample_Bot
      and greeting = "Returns ()" and now = 100 and ws = "[answering (body_of [])]"
      and env = "\<lparr>PRACTICUM_TOKEN = Some (asc ''p''), TELEGRAM_TOKEN = None,
                  TELEGRAM_CHAT_ID = None\<rparr>"] p failed
  have three: "main sample_interp sample_Bot
       \<lparr>PRACTICUM_TOKEN = Some (asc ''p''), TELEGRAM_TOKEN = None, TELEGRAM_CHAT_ID = None\<rparr>
       (Returns ()) 100 [answering (body_of [])]
     = ([], Crashed (Exn TypeError []))" by auto
  from one two three show ?thesis by simp
qed

text \<open>
  C2 as stated does not hold, in two ways. With \<open>PRACTICUM_TOKEN\<close> present but empty and
  the other two absent, one of the three is present and yet the process exits at the
  check. With only \<open>PRACTICUM_TOKEN\<close> present and not empty, the check passes, but the
  constructor raises for the missing bot token: \<open>main\<close> ends with that exception and the
  loop is never entered.
\<close>

theorem startup_counterexample:
  "main sample_interp sample_Bot
     \<lparr>PRACTICUM_TOKEN = Some [], TELEGRAM_TOKEN = None, TELEGRAM_CHAT_ID = None\<rparr>
     (Returns ()) 100 [answering (body_of [])]
   = ([Log CRITICAL txt_tokens_missing], Exited)
   \<and> check_tokens
       \<lparr>PRACTICUM_TOKEN = Some (asc ''p''), TELEGRAM_TOKEN = None, TELEGRAM_CHAT_ID = None\<rparr>
     = ([], True)
   \<and> main sample_interp sample_Bot
       \<lparr>PRACTICUM_TOKEN = Some (asc ''p''), TELEGRAM_TOKEN = None, TELEGRAM_CHAT_ID = None\<rparr>
       (Returns ()) 100 [answering (body_of [])]
     = ([], Crashed (Exn TypeError []))"
  by (simp add: main_def check_tokens_def getenv_def sample_Bot_def asc_def)

subsection \<open>C3: malformed bodies\<close>

text \<open>
  C3. When the API answers 200 with a decoded body that is not a dict, or is a dict
  without the key \<open>homeworks\<close>, or without the key \<open>current_date\<close>, or whose
  \<open>homeworks\<close> is not a list, \<open>check_response\<close> raises one of its four \<open>TypeError\<close>s
  and \<open>KeyError\<close>s (the classes the spec calls SchemaError), and the cycle consists of
  the request, the error line, the one \<open>send_message\<close> of the failure text and the
  sleep: nothing from the body is interpreted or sent.
\<close>

theorem malformed_body_rejected:
  assumes "fetch w = Returns resp" and "status_code resp = 200" and "decoded resp = Inr body"
    and "(\<forall>d. body \<noteq> JDict d)
         \<or> (\<exists>d. body = JDict d
                \<and> (map_of d (asc ''homeworks'') = None
                    \<or> map_of d (asc ''current_date'') = None
                    \<or> (\<forall>hs. map_of d (asc ''homeworks'') \<noteq> Some (JList hs))))"
  shows "\<exists>e. check_response body = Inl e
           \<and> e \<in> {Exn TypeError txt_not_dict, Exn KeyError txt_no_homeworks,
                    Exn KeyError txt_no_current_date, Exn TypeError txt_not_list}
           \<and> events (cycle rt w timestamp)
               = HttpGet (py_round timestamp) # Log ERROR (txt_failure @ str_exn rt e)
                 # fst (send_message rt (report w) (txt_failure @ str_exn rt e))
                 @ [Sleep 600]"
proof -
  have ga: "get_api_answer rt (fetch w) timestamp = ([HttpGet (py_round timestamp)], Inr body)"
    using assms(1-3) by (simp add: get_api_answer_def Let_def)
  have "\<exists>e. check_response body = Inl e
           \<and> e \<in> {Exn TypeError txt_not_dict, Exn KeyError txt_no_homeworks,
                    Exn KeyError txt_no_current_date, Exn TypeError txt_not_list}"
    using assms(4) by (auto simp: check_response_def split: json.splits option.splits)
  then obtain e where e: "check_response body = Inl e"
    and cls: "e \<in> {Exn TypeError txt_not_dict, Exn KeyError txt_no_homeworks,
                    Exn KeyError txt_no_current_date, Exn TypeError txt_not_list}" by blast
  have "events (cycle rt w timestamp)
               = HttpGet (py_round timestamp) # Log ERROR (txt_failure @ str_exn rt e)
                 # fst (send_message rt (report w) (txt_failure @ str_exn rt e))
                 @ [Sleep 600]"
    using ga e by (simp add: cycle_def try_block_def Let_def RETRY_PERIOD_def split: prod.splits)
  with e cls show ?thesis by blast
qed

text \<open>
  The theorem at a body that is a list.
\<close>

theorem malformed_body_rejected_witness:
  "\<exists>e. check_response (JList []) = Inl e
           \<and> e \<in> {Exn TypeError txt_not_dict, Exn KeyError txt_no_homeworks,
                    Exn KeyError txt_no_current_date, Exn TypeError txt_not_list}
           \<and> events (cycle sample_interp (answering (JList [])) 100)
               = HttpGet (py_round 100) # Log ERROR (txt_failure @ str_exn sample_interp e)
                 # fst (send_message sample_interp (report (answering (JList [])))
                        (txt_failure @ str_exn sample_interp e))
                 @ [Sleep 600]"
proof -
  have h1: "fetch (answering (JList [])) = Returns \<lparr>status_code = 200, decoded = Inr (JList [])\<rparr>"
    by (simp add: answering_def)
  have h2: "status_code \<lparr>status_code = 200, decoded = Inr (JList [])\<rparr> = 200" by simp
  have h3: "decoded \<lparr>status_code = 200, decoded = Inr (JList [])\<rparr> = Inr (JList [])" by simp
  have h4: "(\<forall>d. JList [] \<noteq> JDict d)
         \<or> (\<exists>d. JList [] = JDict d
                \<and> (map_of d (asc ''homeworks'') = None
                    \<or> map_of d (asc ''current_date'') = None
                    \<or> (\<forall>hs. map_of d (asc ''homeworks'') \<noteq> Some (JList hs))))" by simp
  show ?thesis by (rule malformed_body_rejected [OF h1 h2 h3 h4])
qed

subsection \<open>C4: the first homework only\<close>



subsection \<open>C5: the errors of the interpreter\<close>

text \<open>
  C5, as the code has it. For a dict given to \<open>parse_status\<close>: if \<open>homework_name\<close> is
  absent or \<open>None\<close>, it raises the \<open>KeyError\<close> for the name; if \<open>status\<close> is absent, it
  raises a \<open>KeyError\<close> (for the name when that check fails first, else for the status);
  if the name is present and not \<open>None\<close> and the status is present, hashable (a string,
  number, boolean or \<open>None\<close>) and none of \<open>approved\<close>, \<open>reviewing\<close>, \<open>rejected\<close>, it
  raises the \<open>SystemError\<close> for an unknown status.
\<close>

theorem parse_status_errors:
  "(map_of d (asc ''homework_name'') = None \<or> map_of d (asc ''homework_name'') = Some JNull
      \<longrightarrow> parse_status rt (JDict d) = Inl (Exn KeyError txt_no_name))
   \<and> (map_of d (asc ''status'') = None
      \<longrightarrow> parse_status rt (JDict d) = Inl (Exn KeyError txt_no_name)
          \<or> parse_status rt (JDict d) = Inl (Exn KeyError txt_no_status))
   \<and> (map_of d (asc ''homework_name'') = Some name \<and> name \<noteq> JNull
       \<and> map_of d (asc ''status'') = Some status \<and> hashable status
       \<and> status \<noteq> JStr (asc ''approved'') \<and> status \<noteq> JStr (asc ''reviewing'')
       \<and> status \<noteq> JStr (asc ''rejected'')
      \<longrightarrow> parse_status rt (JDict d) = Inl (Exn SystemError txt_unknown_status))"
  by (auto simp: parse_status_def verdict_of_def HOMEWORK_VERDICTS_def Let_def
      split: option.splits json.splits)

text \<open>
  The theorem at a record whose name is \<open>None\<close> and at a record with the status
  \<open>lost\<close>.
\<close>

theorem parse_status_errors_witness:
  "parse_status sample_interp (JDict [(asc ''homework_name'', JNull)])
     = Inl (Exn KeyError txt_no_name)
   \<and> parse_status sample_interp
       (JDict [(asc ''homework_name'', JStr (asc ''hw1'')), (asc ''status'', JStr (asc ''lost''))])
     = Inl (Exn SystemError txt_unknown_status)"
proof -
  from parse_status_errors [where d = "[(asc ''homework_name'', JNull)]"
      and rt = sample_interp]
  have one: "parse_status sample_interp (JDict [(asc ''homework_name'', JNull)])
     = Inl (Exn KeyError txt_no_name)" by simp
  from parse_status_errors [where rt = sample_interp
      and name = "JStr (asc ''hw1'')" and status = "JStr (asc ''lost'')"
      and d = "[(asc ''homework_name'', JStr (asc ''hw1'')),
                (asc ''status'', JStr (asc ''lost''))]"]
  have two: "parse_status sample_interp
       (JDict [(asc ''homework_name'', JStr (asc ''hw1'')), (asc ''status'', JStr (asc ''lost''))])
     = Inl (Exn SystemError txt_unknown_status)" by (simp add: asc_def)
  from one two show ?thesis by simp
qed

text \<open>
  C5 as stated does not hold: for a record whose status is a list, the membership test
  \<open>homework_status not in HOMEWORK_VERDICTS\<close> itself raises \<open>TypeError\<close>, not the
  \<open>SystemError\<close> for an unknown status.
\<close>

theorem unhashable_status_counterexample:
  "parse_status sample_interp
     (JDict [(asc ''homework_name'', JStr (asc ''hw1'')), (asc ''status'', JList [])])
   = Inl (Exn TypeError (unhashable sample_interp (JList [])))
   \<and> parse_status sample_interp
       (JDict [(asc ''homework_name'', JStr (asc ''hw1'')), (asc ''status'', JList [])])
     \<noteq> Inl (Exn SystemError txt_unknown_status)"
  by (simp add: parse_status_def asc_def)

subsection \<open>C6: the message for an approved homework\<close>

text \<open>
  C6. For the body
  \<open>{"homeworks":[{"homework_name":"hw1","status":"approved"}],"current_date":100}\<close>
  the validator returns the first homework, and the interpreter turns it into exactly
  the 88 code points of the status-change sentence for \<open>"hw1"\<close> followed by the verdict
  for \<open>approved\<close>, written out below.
\<close>

theorem approved_homework_message:
  "check_response
     (JDict [(asc ''homeworks'',
              JList [JDict [(asc ''homework_name'', JStr (asc ''hw1'')),
                            (asc ''status'', JStr (asc ''approved''))]]),
             (asc ''current_date'', JInt 100)])
   = Inr (JDict [(asc ''homework_name'', JStr (asc ''hw1'')),
                 (asc ''status'', JStr (asc ''approved''))])
   \<and> parse_status rt
         (JDict [(asc ''homework_name'', JStr (asc ''hw1'')),
                 (asc ''status'', JStr (asc ''approved''))])
     = Inr [0x418, 0x437, 0x43C, 0x435, 0x43D, 0x438, 0x43B, 0x441, 0x44F, 0x20, 0x441,
            0x442, 0x430, 0x442, 0x443, 0x441, 0x20, 0x43F, 0x440, 0x43E, 0x432, 0x435,
            0x440, 0x43A, 0x438, 0x20, 0x440, 0x430, 0x431, 0x43E, 0x442, 0x44B, 0x20,
            0x22, 0x68, 0x77, 0x31, 0x22, 0x2E, 0x20, 0x420, 0x430, 0x431, 0x43E, 0x442,
            0x430, 0x20, 0x43F, 0x440, 0x43E, 0x432, 0x435, 0x440, 0x435, 0x43D, 0x430,
            0x3A, 0x20, 0x440, 0x435, 0x432, 0x44C, 0x44E, 0x435, 0x440, 0x443, 0x20,
            0x432, 0x441, 0x451, 0x20, 0x43F, 0x43E, 0x43D, 0x440, 0x430, 0x432, 0x438,
            0x43B, 0x43E, 0x441, 0x44C, 0x2E, 0x20, 0x423, 0x440, 0x430, 0x21]"
  by (simp add: check_response_def parse_status_def asc_def verdict_of_def
      HOMEWORK_VERDICTS_def str_value_def txt_changed_def txt_quote_dot_def
      verdict_approved_def)

subsection \<open>C7: the API client\<close>

text \<open>
  C7, at a response with status 200 whose body does not decode. The handler logs its
  line and then evaluates \<open>JSONDecodeError(error_message)\<close>; the exception that leaves
  \<open>get_api_answer\<close> is the \<open>TypeError\<close> of that constructor call, not a
  \<open>JSONDecodeError\<close>.
\<close>

theorem undecodable_body_raises_TypeError:
  "get_api_answer rt (Returns \<lparr>status_code = 200, decoded = Inl text\<rparr>) timestamp
   = ([HttpGet (py_round timestamp), Log ERROR (txt_decode_failed @ text)],
      Inl (Exn TypeError (missing_args rt)))"
  by (simp add: get_api_answer_def Let_def)

text \<open>
  The other two parts of C7 hold: a status other than 200 raises an \<open>Exception\<close> whose
  text ends with the status code, and a decoded body is returned as it is.
\<close>

lemma get_api_answer_bad_status:
  "code \<noteq> 200 \<Longrightarrow>
   snd (get_api_answer rt (Returns \<lparr>status_code = code, decoded = b\<rparr>) timestamp)
   = Inl (Exn Exception (txt_bad_status @ str_int code))"
  by (simp add: get_api_answer_def Let_def)

lemma get_api_answer_success:
  "get_api_answer rt (Returns \<lparr>status_code = 200, decoded = Inr body\<rparr>) timestamp
   = ([HttpGet (py_round timestamp)], Inr body)"
  by (simp add: get_api_answer_def Let_def)

subsection \<open>C8: a failed send\<close>

text \<open>
  C8. The library reports a failed send, transport failures included, as a
  \<open>telegram.TelegramError\<close>. When \<open>bot.send_message\<close> raises one, \<open>send_message\<close> logs
  an error line and returns. A cycle whose sends fail this way lets no exception escape,
  leaves the cursor where the same cycle with delivered sends leaves it, and has the
  same requests, sends and sleep; only the log lines differ.
\<close>

theorem telegram_error_swallowed:
  assumes "exn_class e1 = TelegramError" and "exn_class e2 = TelegramError"
  shows "send_message rt (Raises e1) message
           = ([BotSend message, Log ERROR (txt_send_failed @ str_exn rt e1 @ [0x2E])], Inr ())
         \<and> escaped (cycle rt (w\<lparr>notify := Raises e1, report := Raises e2\<rparr>) timestamp) = None
         \<and> cursor (cycle rt (w\<lparr>notify := Raises e1, report := Raises e2\<rparr>) timestamp)
             = cursor (cycle rt (w\<lparr>notify := Returns (), report := Returns ()\<rparr>) timestamp)
         \<and> [x \<leftarrow> events (cycle rt (w\<lparr>notify := Raises e1, report := Raises e2\<rparr>) timestamp).
              \<forall>l t. x \<noteq> Log l t]
             = [x \<leftarrow> events (cycle rt (w\<lparr>notify := Returns (), report := Returns ()\<rparr>) timestamp).
                \<forall>l t. x \<noteq> Log l t]"
  using assms
  by (auto simp: send_message_def cycle_def try_block_def Let_def
      split: prod.splits sum.splits)

text \<open>
  The theorem at a timed-out send, in a cycle that reports a failed fetch.
\<close>

theorem telegram_error_swallowed_witness:
  "send_message sample_interp (Raises (Exn TelegramError (asc ''Timed out''))) (asc ''hi'')
     = ([BotSend (asc ''hi''),
         Log ERROR (txt_send_failed
                    @ str_exn sample_interp (Exn TelegramError (asc ''Timed out'')) @ [0x2E])],
        Inr ())
   \<and> escaped (cycle sample_interp
        (refusing\<lparr>notify := Raises (Exn TelegramError (asc ''Timed out'')),
                  report := Raises (Exn TelegramError (asc ''Timed out''))\<rparr>) 100) = None"
proof -
  have h: "exn_class (Exn TelegramError (asc ''Timed out'')) = TelegramError" by simp
  from telegram_error_swallowed [OF h h, where rt = sample_interp
      and message = "asc ''hi''" and w = refusing and timestamp = 100]
  show ?thesis by blast
qed

subsection \<open>C9: the sleep after every cycle\<close>

lemma split_after_prefix:
  "xs @ ys = pre @ a # post \<Longrightarrow> a \<notin> set xs \<Longrightarrow> \<exists>pre'. pre = xs @ pre' \<and> ys = pre' @ a # post"
proof (induction xs arbitrary: pre)
  case Nil
  then show ?case by simp
next
  case (Cons x xs)
  then show ?case by (cases pre) auto
qed

lemma loop_sleeps:
  "fst (main_loop rt ws ts) = pre @ HttpGet n # post \<Longrightarrow> pre \<noteq> [] \<Longrightarrow> last pre = Sleep 600"
proof (induction ws arbitrary: ts pre)
  case Nil
  then show ?case by simp
next
  case (Cons w ws)
  obtain body where body: "events (cycle rt w ts) = HttpGet (py_round ts) # body @ [Sleep 600]"
    and nog: "\<forall>n. HttpGet n \<notin> set body"
    using cycle_shape by blast
  define rest where "rest = (case escaped (cycle rt w ts) of Some e \<Rightarrow> []
      | None \<Rightarrow> fst (main_loop rt ws (cursor (cycle rt w ts))))"
  have tr: "fst (main_loop rt (w # ws) ts) = events (cycle rt w ts) @ rest"
    by (simp add: rest_def Let_def split: option.splits prod.splits)
  from Cons.prems obtain pre1 where pre: "pre = HttpGet (py_round ts) # pre1"
    and eq: "(body @ [Sleep 600]) @ rest = pre1 @ HttpGet n # post"
    unfolding tr body by (cases pre) auto
  have "HttpGet n \<notin> set (body @ [Sleep 600])" using nog by simp
  from split_after_prefix [OF eq this] obtain pre' where p1: "pre1 = (body @ [Sleep 600]) @ pre'"
    and r: "rest = pre' @ HttpGet n # post" by blast
  show ?case
  proof (cases "pre' = []")
    case True
    then show ?thesis using pre p1 by simp
  next
    case False
    from r have ne: "escaped (cycle rt w ts) = None" and
      r': "fst (main_loop rt ws (cursor (cycle rt w ts))) = pre' @ HttpGet n # post"
      by (auto simp: rest_def split: option.splits)
    from Cons.IH [OF r' False] show ?thesis using pre p1 False by simp
  qed
qed

text \<open>
  C9. The trace of every cycle, whatever happens in it, is its request, events that are
  not requests, and last \<open>time.sleep(600)\<close>. In the trace of the loop, every request but
  the very first event is directly preceded by that sleep: no cycle starts without the
  sleep that ends the cycle before it.
\<close>

theorem every_cycle_sleeps:
  "(\<exists>body. events (cycle rt w ts) = HttpGet (py_round ts) # body @ [Sleep 600]
        \<and> (\<forall>n. HttpGet n \<notin> set body))
   \<and> (\<forall>pre n post. fst (main_loop rt ws ts) = pre @ HttpGet n # post \<and> pre \<noteq> []
         \<longrightarrow> last pre = Sleep 600)"
  using cycle_shape loop_sleeps by blast

text \<open>
  The theorem at a loop of two cycles, the first of which fails: the second request
  follows the sleep that ends the failed cycle.
\<close>

theorem every_cycle_sleeps_witness:
  "fst (main_loop sample_interp [refusing, answering (body_of [])] 100)
     = events (cycle sample_interp refusing 100)
       @ HttpGet 100 # [Log DEBUG txt_unchanged, Sleep 600]
   \<and> events (cycle sample_interp refusing 100) \<noteq> []
   \<and> last (events (cycle sample_interp refusing 100)) = Sleep 600"
proof -
  have eq: "fst (main_loop sample_interp [refusing, answering (body_of [])] 100)
     = events (cycle sample_interp refusing 100)
       @ HttpGet 100 # [Log DEBUG txt_unchanged, Sleep 600]"
    by (simp add: run_simps)
  have ne: "events (cycle sample_interp refusing 100) \<noteq> []"
    by (simp add: run_simps)
  from every_cycle_sleeps [where rt = sample_interp and w = refusing and ts = 100
      and ws = "[refusing, answering (body_of [])]"] eq ne
  have "last (events (cycle sample_interp refusing 100)) = Sleep 600" by blast
  with eq ne show ?thesis by simp
qed

subsection \<open>C10: a falsy first homework\<close>

text \<open>
  C10. When the list of homeworks is not empty but its first element is falsy (an empty
  dict, for example), the cycle is exactly the one of an empty list: the request, the
  debug line and the sleep, the cursor moved to the current time, no send and no
  exception; \<open>parse_status\<close> is not applied, although on such a dict it would raise the
  \<open>KeyError\<close> for the missing name.
\<close>

theorem falsy_first_homework_skipped:
  assumes "fetch w = Returns resp" and "status_code resp = 200"
    and "decoded resp = Inr (JDict d)"
    and "map_of d (asc ''homeworks'') = Some (JList (h # rest))"
    and "map_of d (asc ''current_date'') = Some date"
    and "\<not> truthy h"
  shows "cycle rt w timestamp
           = \<lparr>events = [HttpGet (py_round timestamp), Log DEBUG txt_unchanged, Sleep 600],
              cursor = clock w, escaped = None\<rparr>
         \<and> (\<forall>r. h = JDict r \<longrightarrow> parse_status rt h = Inl (Exn KeyError txt_no_name))"
proof -
  have ga: "get_api_answer rt (fetch w) timestamp
              = ([HttpGet (py_round timestamp)], Inr (JDict d))"
    using assms(1-3) by (simp add: get_api_answer_def Let_def)
  have cr: "check_response (JDict d) = Inr h"
    using assms(4,5) by (simp add: check_response_def)
  have "cycle rt w timestamp
           = \<lparr>events = [HttpGet (py_round timestamp), Log DEBUG txt_unchanged, Sleep 600],
              cursor = clock w, escaped = None\<rparr>"
    using ga cr assms(6) by (simp add: cycle_def try_block_def RETRY_PERIOD_def)
  moreover have "\<forall>r. h = JDict r \<longrightarrow> parse_status rt h = Inl (Exn KeyError txt_no_name)"
    using assms(6) by (auto simp: parse_status_def)
  ultimately show ?thesis by blast
qed

text \<open>
  The theorem at the list \<open>[{}, 8]\<close>.
\<close>

theorem falsy_first_homework_skipped_witness:
  "\<not> truthy (JDict [])
   \<and> cycle sample_interp (answering (body_of [JDict [], JInt 8])) 100
       = \<lparr>events = [HttpGet 100, Log DEBUG txt_unchanged, Sleep 600], cursor = 700,
          escaped = None\<rparr>
   \<and> parse_status sample_interp (JDict []) = Inl (Exn KeyError txt_no_name)"
proof -
  have r: "py_round 100 = 100" by (simp add: py_round_def)
  have f: "fetch (answering b) = Returns \<lparr>status_code = 200, decoded = Inr b\<rparr>" for b
    by (simp add: answering_def)
  have s: "status_code \<lparr>status_code = 200, decoded = Inr b\<rparr> = 200" for b :: json by simp
  have d: "decoded \<lparr>status_code = 200, decoded = Inr (body_of hs)\<rparr>
             = Inr (JDict [(asc ''homeworks'', JList hs), (asc ''current_date'', JInt 100)])" for hs
    by (simp add: body_of_def)
  have k1: "map_of [(asc ''homeworks'', JList hs), (asc ''current_date'', JInt 100)]
              (asc ''homeworks'') = Some (JList hs)" for hs by simp
  have k2: "map_of [(asc ''homeworks'', JList hs), (asc ''current_date'', JInt 100)]
              (asc ''current_date'') = Some (JInt 100)" for hs :: "json list" by (simp add: asc_def)
  have t: "\<not> truthy (JDict [])" by simp
  from falsy_first_homework_skipped [OF f s d k1 k2 t, where rest = "[JInt 8]"
      and rt = sample_interp and timestamp = 100] t
  show ?thesis by (simp add: r answering_def)
qed

end
